theory Spec2Isabelle
  imports Main
begin

section \<open>The OOP refresher script \<^verbatim>\<open>python/main.py\<close>\<close>

text \<open>
  The script defines three classes at module level and exercises two of them:
  \<^verbatim>\<open>
   4  class Dog:
   5    def __init__(self, name, breed):
   6      self.name = name
   7      self.breed = breed
   9    def bark(self):
  10      print("Woof!")
  12  my_dog = Dog("Fido", "Labrador")
  13  print(my_dog.name)  # Output: Fido
  14  my_dog.bark()  # Output: Woof!
  17  class Animal:
  18    def __init__(self, name):
  19      self.__name = name  # Encapsulation: Private attribute
  21    def speak(self):
  22      print("Generic animal sound")
  24  class Cat(Animal):
  25    def __init__(self, name):
  26      super().__init__(name)  # Inheritance
  28    def speak(self):  # Polymorphism: Overriding the speak method
  29      print("Meow!")
  31  my_cat = Cat("Whiskers")
  32  my_cat.speak()  # Output: Meow!
  \<close>
  Python objects are mutable and shared, so instances live in an explicit heap; the
  module's variables are a dictionary of globals; the console is the text written so
  far. Every raise is a value of \<open>py_error\<close>.
\<close>

subsection \<open>Values, objects and the interpreter state\<close>

datatype py_class = Dog | Animal | Cat

text \<open>The six \<^verbatim>\<open>def\<close>s of the script, as names a bound method can carry.\<close>

datatype py_function =
  Fn_Dog_init | Fn_Dog_bark | Fn_Animal_init | Fn_Animal_speak | Fn_Cat_init | Fn_Cat_speak

text \<open>
  Python is unityped: a constructor argument may be any value. The model covers
  \<^verbatim>\<open>None\<close>, booleans, integers, strings, the script's class objects, references to
  instances of the script's classes and their bound methods.
\<close>

datatype pyval =
  PNone
  | PBool bool
  | PInt int
  | PStr string
  | PClass py_class
  | PRef nat
  | PMethod py_function nat

text \<open>
  \<open>Unmodelled\<close> is not a Python exception: it marks the places where Python's behaviour
  lies outside the fragment modelled here (attributes of built-in values, the attributes
  every object inherits from \<^verbatim>\<open>object\<close>, the address-dependent text of an instance).
  No statement below takes it for a Python error.
\<close>

datatype py_error =
  NameError string
  | AttributeError py_class string
  | TypeError
  | Unmodelled

record py_object =
  ob_type :: py_class
  ob_dict :: "string \<rightharpoonup> pyval"

record state =
  globals :: "string \<rightharpoonup> pyval"
  heap :: "py_object list"
  stdout :: string

type_synonym 'a result = "py_error + 'a"

definition initial_state :: state where
  "initial_state = \<lparr>globals = Map.empty, heap = [], stdout = []\<rparr>"

definition succeeds :: "'a result \<Rightarrow> bool" where
  "succeeds r = (case r of Inl e \<Rightarrow> False | Inr x \<Rightarrow> True)"

subsection \<open>Class headers: names, method tables, resolution order\<close>

fun class_name :: "py_class \<Rightarrow> string" where
  "class_name Dog = ''Dog''"
| "class_name Animal = ''Animal''"
| "class_name Cat = ''Cat''"

fun class_dict :: "py_class \<Rightarrow> (string \<times> py_function) list" where
  "class_dict Dog = [(''__init__'', Fn_Dog_init), (''bark'', Fn_Dog_bark)]"
| "class_dict Animal = [(''__init__'', Fn_Animal_init), (''speak'', Fn_Animal_speak)]"
| "class_dict Cat = [(''__init__'', Fn_Cat_init), (''speak'', Fn_Cat_speak)]"

text \<open>
  \<^verbatim>\<open>class Dog:\<close> and \<^verbatim>\<open>class Animal:\<close> have no base but \<^verbatim>\<open>object\<close>;
  \<^verbatim>\<open>class Cat(Animal):\<close> has \<open>Animal\<close>. The implicit \<^verbatim>\<open>object\<close> is left out of
  the resolution order and accounted for in \<open>getattr\<close>.
\<close>

fun mro :: "py_class \<Rightarrow> py_class list" where
  "mro Dog = [Dog]"
| "mro Animal = [Animal]"
| "mro Cat = [Cat, Animal]"

fun find_in_mro :: "py_class list \<Rightarrow> string \<Rightarrow> py_function option" where
  "find_in_mro [] name = None"
| "find_in_mro (k # ks) name =
     (case map_of (class_dict k) name of
        Some f \<Rightarrow> Some f
      | None \<Rightarrow> find_in_mro ks name)"

definition is_dunder :: "string \<Rightarrow> bool" where
  "is_dunder name = (take 2 name = ''__'' \<and> drop (length name - 2) name = ''__'')"

text \<open>
  Inside a class body the compiler rewrites an identifier that starts with two
  underscores and does not end with two: \<^verbatim>\<open>__name\<close> in \<open>Animal\<close> is compiled as
  \<^verbatim>\<open>_Animal__name\<close>. Leading underscores of the class name are dropped, and a class
  name made of underscores only leaves the identifier alone. Module-level code is not
  rewritten.
\<close>

definition mangle :: "string \<Rightarrow> string \<Rightarrow> string" where
  "mangle cls ident =
     (let c = dropWhile (\<lambda>x. x = CHR ''_'') cls
      in if take 2 ident = ''__'' \<and> \<not> is_dunder ident \<and> CHR ''.'' \<notin> set ident \<and> c \<noteq> []
         then ''_'' @ c @ ident
         else ident)"

subsection \<open>Attribute access\<close>

text \<open>
  \<^verbatim>\<open>obj.name\<close>: the instance dictionary first, then the classes of the resolution
  order, whose functions come back bound to the instance. A double-underscore name found
  in neither may still be one of \<^verbatim>\<open>object\<close>'s (\<^verbatim>\<open>__class__\<close>, \<^verbatim>\<open>__str__\<close>, ...).
\<close>

definition getattr :: "pyval \<Rightarrow> string \<Rightarrow> state \<Rightarrow> pyval result" where
  "getattr v name st =
     (case v of
        PRef a \<Rightarrow>
          if a < length (heap st) then
            (let ob = heap st ! a in
             case ob_dict ob name of
               Some x \<Rightarrow> Inr x
             | None \<Rightarrow>
                 (case find_in_mro (mro (ob_type ob)) name of
                    Some f \<Rightarrow> Inr (PMethod f a)
                  | None \<Rightarrow>
                      if is_dunder name then Inl Unmodelled
                      else Inl (AttributeError (ob_type ob) name)))
          else Inl Unmodelled
      | _ \<Rightarrow> Inl Unmodelled)"

text \<open>\<^verbatim>\<open>obj.name = x\<close> on an instance of one of the script's classes.\<close>

definition setattr :: "pyval \<Rightarrow> string \<Rightarrow> pyval \<Rightarrow> state \<Rightarrow> state result" where
  "setattr v name x st =
     (case v of
        PRef a \<Rightarrow>
          if a < length (heap st) then
            (let ob = heap st ! a in
             Inr (st\<lparr>heap := (heap st)[a := ob\<lparr>ob_dict := (ob_dict ob)(name \<mapsto> x)\<rparr>]\<rparr>))
          else Inl Unmodelled
      | _ \<Rightarrow> Inl Unmodelled)"

definition py_isinstance :: "pyval \<Rightarrow> py_class \<Rightarrow> state \<Rightarrow> bool" where
  "py_isinstance v c st =
     (case v of
        PRef a \<Rightarrow> a < length (heap st) \<and> c \<in> set (mro (ob_type (heap st ! a)))
      | _ \<Rightarrow> False)"

subsection \<open>\<^verbatim>\<open>print\<close>\<close>

definition digit_char :: "nat \<Rightarrow> char" where
  "digit_char d = char_of (48 + d)"

fun str_nat :: "nat \<Rightarrow> string" where
  "str_nat n = (if n < 10 then [digit_char n] else str_nat (n div 10) @ [digit_char (n mod 10)])"

declare str_nat.simps [simp del]

definition py_str :: "pyval \<Rightarrow> string result" where
  "py_str v =
     (case v of
        PNone \<Rightarrow> Inr ''None''
      | PBool b \<Rightarrow> Inr (if b then ''True'' else ''False'')
      | PInt i \<Rightarrow> Inr (if i < 0 then ''-'' @ str_nat (nat (- i)) else str_nat (nat i))
      | PStr s \<Rightarrow> Inr s
      | PClass c \<Rightarrow> Inr (''<class '' @ [CHR 0x27] @ ''__main__.'' @ class_name c @ [CHR 0x27] @ ''>'')
      | PRef a \<Rightarrow> Inl Unmodelled
      | PMethod f a \<Rightarrow> Inl Unmodelled)"

text \<open>\<^verbatim>\<open>print(v)\<close> writes \<^verbatim>\<open>str(v)\<close> and a line end to the console and returns \<^verbatim>\<open>None\<close>.\<close>

definition py_print :: "pyval \<Rightarrow> state \<Rightarrow> (pyval \<times> state) result" where
  "py_print v st =
     (case py_str v of
        Inl e \<Rightarrow> Inl e
      | Inr s \<Rightarrow> Inr (PNone, st\<lparr>stdout := stdout st @ s @ ''\<newline>''\<rparr>))"

subsection \<open>The method bodies\<close>

definition Dog_init :: "pyval \<Rightarrow> pyval \<Rightarrow> pyval \<Rightarrow> state \<Rightarrow> (pyval \<times> state) result" where
  "Dog_init self name breed st =
     (case setattr self ''name'' name st of
        Inl e \<Rightarrow> Inl e
      | Inr st1 \<Rightarrow>
          (case setattr self ''breed'' breed st1 of
             Inl e \<Rightarrow> Inl e
           | Inr st2 \<Rightarrow> Inr (PNone, st2)))"

definition Dog_bark :: "pyval \<Rightarrow> state \<Rightarrow> (pyval \<times> state) result" where
  "Dog_bark self st =
     (case py_print (PStr ''Woof!'') st of
        Inl e \<Rightarrow> Inl e
      | Inr (r, st1) \<Rightarrow> Inr (PNone, st1))"

definition Animal_init :: "pyval \<Rightarrow> pyval \<Rightarrow> state \<Rightarrow> (pyval \<times> state) result" where
  "Animal_init self name st =
     (case setattr self (mangle (class_name Animal) ''__name'') name st of
        Inl e \<Rightarrow> Inl e
      | Inr st1 \<Rightarrow> Inr (PNone, st1))"

definition Animal_speak :: "pyval \<Rightarrow> state \<Rightarrow> (pyval \<times> state) result" where
  "Animal_speak self st =
     (case py_print (PStr ''Generic animal sound'') st of
        Inl e \<Rightarrow> Inl e
      | Inr (r, st1) \<Rightarrow> Inr (PNone, st1))"

text \<open>
  \<^verbatim>\<open>super()\<close> in a method of class \<open>cls\<close> looks the attribute up in the resolution
  order of \<^verbatim>\<open>type(self)\<close> after \<open>cls\<close>, and raises \<^verbatim>\<open>TypeError\<close> when \<open>self\<close> is not
  an instance of \<open>cls\<close>.
\<close>

definition py_super :: "py_class \<Rightarrow> pyval \<Rightarrow> string \<Rightarrow> state \<Rightarrow> pyval result" where
  "py_super cls self name st =
     (if py_isinstance self cls st then
        (case self of
           PRef a \<Rightarrow>
             (case find_in_mro (tl (dropWhile (\<lambda>k. k \<noteq> cls) (mro (ob_type (heap st ! a))))) name of
                Some f \<Rightarrow> Inr (PMethod f a)
              | None \<Rightarrow> Inl Unmodelled)
         | _ \<Rightarrow> Inl Unmodelled)
      else Inl TypeError)"

text \<open>
  Calling a bound method of a class defined before \<open>Cat\<close>: the only ones
  \<^verbatim>\<open>super()\<close> in \<open>Cat\<close> can return. A wrong number of arguments is a \<^verbatim>\<open>TypeError\<close>.
\<close>

definition call_base :: "pyval \<Rightarrow> pyval list \<Rightarrow> state \<Rightarrow> (pyval \<times> state) result" where
  "call_base f args st =
     (case f of
        PMethod fn a \<Rightarrow>
          (case (fn, args) of
             (Fn_Dog_init, [name, breed]) \<Rightarrow> Dog_init (PRef a) name breed st
           | (Fn_Dog_bark, []) \<Rightarrow> Dog_bark (PRef a) st
           | (Fn_Animal_init, [name]) \<Rightarrow> Animal_init (PRef a) name st
           | (Fn_Animal_speak, []) \<Rightarrow> Animal_speak (PRef a) st
           | (Fn_Cat_init, _) \<Rightarrow> Inl Unmodelled
           | (Fn_Cat_speak, _) \<Rightarrow> Inl Unmodelled
           | _ \<Rightarrow> Inl TypeError)
      | _ \<Rightarrow> Inl Unmodelled)"

definition Cat_init :: "pyval \<Rightarrow> pyval \<Rightarrow> state \<Rightarrow> (pyval \<times> state) result" where
  "Cat_init self name st =
     (case py_super Cat self ''__init__'' st of
        Inl e \<Rightarrow> Inl e
      | Inr m \<Rightarrow>
          (case call_base m [name] st of
             Inl e \<Rightarrow> Inl e
           | Inr (r, st1) \<Rightarrow> Inr (PNone, st1)))"

definition Cat_speak :: "pyval \<Rightarrow> state \<Rightarrow> (pyval \<times> state) result" where
  "Cat_speak self st =
     (case py_print (PStr ''Meow!'') st of
        Inl e \<Rightarrow> Inl e
      | Inr (r, st1) \<Rightarrow> Inr (PNone, st1))"

subsection \<open>Calls\<close>

definition apply_function ::
  "py_function \<Rightarrow> pyval \<Rightarrow> pyval list \<Rightarrow> state \<Rightarrow> (pyval \<times> state) result" where
  "apply_function fn self args st =
     (case (fn, args) of
        (Fn_Dog_init, [name, breed]) \<Rightarrow> Dog_init self name breed st
      | (Fn_Dog_bark, []) \<Rightarrow> Dog_bark self st
      | (Fn_Animal_init, [name]) \<Rightarrow> Animal_init self name st
      | (Fn_Animal_speak, []) \<Rightarrow> Animal_speak self st
      | (Fn_Cat_init, [name]) \<Rightarrow> Cat_init self name st
      | (Fn_Cat_speak, []) \<Rightarrow> Cat_speak self st
      | _ \<Rightarrow> Inl TypeError)"

text \<open>
  \<^verbatim>\<open>C(args)\<close>: a fresh instance with an empty dictionary is allocated, then the
  \<^verbatim>\<open>__init__\<close> found along the resolution order runs on it and must return \<^verbatim>\<open>None\<close>.
  Each of the three classes finds one; \<^verbatim>\<open>object\<close>'s own takes no argument.
\<close>

definition instantiate :: "py_class \<Rightarrow> pyval list \<Rightarrow> state \<Rightarrow> (pyval \<times> state) result" where
  "instantiate c args st =
     (let a = length (heap st);
          st1 = st\<lparr>heap := heap st @ [\<lparr>ob_type = c, ob_dict = Map.empty\<rparr>]\<rparr>
      in case find_in_mro (mro c) ''__init__'' of
           None \<Rightarrow> if args = [] then Inr (PRef a, st1) else Inl TypeError
         | Some fn \<Rightarrow>
             (case apply_function fn (PRef a) args st1 of
                Inl e \<Rightarrow> Inl e
              | Inr (r, st2) \<Rightarrow> if r = PNone then Inr (PRef a, st2) else Inl TypeError))"

definition call :: "pyval \<Rightarrow> pyval list \<Rightarrow> state \<Rightarrow> (pyval \<times> state) result" where
  "call f args st =
     (case f of
        PMethod fn a \<Rightarrow> apply_function fn (PRef a) args st
      | PClass c \<Rightarrow> instantiate c args st
      | _ \<Rightarrow> Inl TypeError)"

text \<open>\<^verbatim>\<open>obj.name(args)\<close>: the attribute is read, then called.\<close>

definition call_method :: "pyval \<Rightarrow> string \<Rightarrow> pyval list \<Rightarrow> state \<Rightarrow> (pyval \<times> state) result" where
  "call_method v name args st =
     (case getattr v name st of
        Inl e \<Rightarrow> Inl e
      | Inr f \<Rightarrow> call f args st)"

subsection \<open>The module's statements\<close>

definition load_global :: "string \<Rightarrow> state \<Rightarrow> pyval result" where
  "load_global name st =
     (case globals st name of
        Some v \<Rightarrow> Inr v
      | None \<Rightarrow> Inl (NameError name))"

definition store_global :: "string \<Rightarrow> pyval \<Rightarrow> state \<Rightarrow> state" where
  "store_global name v st = st\<lparr>globals := (globals st)(name \<mapsto> v)\<rparr>"

text \<open>Lines 4 to 10: the \<^verbatim>\<open>class\<close> statement binds the class object to its name.\<close>

definition class_Dog :: "state \<Rightarrow> state result" where
  "class_Dog st = Inr (store_global ''Dog'' (PClass Dog) st)"

text \<open>Line 12: \<^verbatim>\<open>my_dog = Dog("Fido", "Labrador")\<close>\<close>

definition assign_my_dog :: "state \<Rightarrow> state result" where
  "assign_my_dog st =
     (case load_global ''Dog'' st of
        Inl e \<Rightarrow> Inl e
      | Inr f \<Rightarrow>
          (case call f [PStr ''Fido'', PStr ''Labrador''] st of
             Inl e \<Rightarrow> Inl e
           | Inr (v, st1) \<Rightarrow> Inr (store_global ''my_dog'' v st1)))"

text \<open>Line 13: \<^verbatim>\<open>print(my_dog.name)\<close>\<close>

definition print_my_dog_name :: "state \<Rightarrow> state result" where
  "print_my_dog_name st =
     (case load_global ''my_dog'' st of
        Inl e \<Rightarrow> Inl e
      | Inr d \<Rightarrow>
          (case getattr d ''name'' st of
             Inl e \<Rightarrow> Inl e
           | Inr v \<Rightarrow>
               (case py_print v st of
                  Inl e \<Rightarrow> Inl e
                | Inr (r, st1) \<Rightarrow> Inr st1)))"

text \<open>Line 14: \<^verbatim>\<open>my_dog.bark()\<close>\<close>

definition call_my_dog_bark :: "state \<Rightarrow> state result" where
  "call_my_dog_bark st =
     (case load_global ''my_dog'' st of
        Inl e \<Rightarrow> Inl e
      | Inr d \<Rightarrow>
          (case call_method d ''bark'' [] st of
             Inl e \<Rightarrow> Inl e
           | Inr (r, st1) \<Rightarrow> Inr st1))"

text \<open>Lines 17 to 22.\<close>

definition class_Animal :: "state \<Rightarrow> state result" where
  "class_Animal st = Inr (store_global ''Animal'' (PClass Animal) st)"

text \<open>
  Lines 24 to 29: the header \<^verbatim>\<open>class Cat(Animal):\<close> reads the global \<open>Animal\<close>. The
  resolution order of \<open>Cat\<close> is fixed above, so a base other than the class of line 17
  is outside the model.
\<close>

definition class_Cat :: "state \<Rightarrow> state result" where
  "class_Cat st =
     (case load_global ''Animal'' st of
        Inl e \<Rightarrow> Inl e
      | Inr b \<Rightarrow>
          if b = PClass Animal then Inr (store_global ''Cat'' (PClass Cat) st)
          else Inl Unmodelled)"

text \<open>Line 31: \<^verbatim>\<open>my_cat = Cat("Whiskers")\<close>\<close>

definition assign_my_cat :: "state \<Rightarrow> state result" where
  "assign_my_cat st =
     (case load_global ''Cat'' st of
        Inl e \<Rightarrow> Inl e
      | Inr f \<Rightarrow>
          (case call f [PStr ''Whiskers''] st of
             Inl e \<Rightarrow> Inl e
           | Inr (v, st1) \<Rightarrow> Inr (store_global ''my_cat'' v st1)))"

text \<open>Line 32: \<^verbatim>\<open>my_cat.speak()\<close>\<close>

definition call_my_cat_speak :: "state \<Rightarrow> state result" where
  "call_my_cat_speak st =
     (case load_global ''my_cat'' st of
        Inl e \<Rightarrow> Inl e
      | Inr c \<Rightarrow>
          (case call_method c ''speak'' [] st of
             Inl e \<Rightarrow> Inl e
           | Inr (r, st1) \<Rightarrow> Inr st1))"

text \<open>Statements run in order; the first uncaught exception ends the script.\<close>

fun exec :: "(state \<Rightarrow> state result) list \<Rightarrow> state \<Rightarrow> state result" where
  "exec [] st = Inr st"
| "exec (s # ss) st =
     (case s st of
        Inl e \<Rightarrow> Inl e
      | Inr st1 \<Rightarrow> exec ss st1)"

definition module_body :: "(state \<Rightarrow> state result) list" where
  "module_body =
     [class_Dog, assign_my_dog, print_my_dog_name, call_my_dog_bark,
      class_Animal, class_Cat, assign_my_cat, call_my_cat_speak]"

definition main :: "state result" where
  "main = exec module_body initial_state"

definition console :: "state result \<Rightarrow> string result" where
  "console r = (case r of Inl e \<Rightarrow> Inl e | Inr st \<Rightarrow> Inr (stdout st))"

text \<open>
  The top level as the specification lists it: define \<open>Dog\<close>, instantiate it, invoke its
  method, define \<open>Animal\<close>, define \<open>Cat\<close>, instantiate \<open>Cat\<close>, invoke its method. It
  is compared with \<open>module_body\<close>, which follows the source.
\<close>

definition spec_top_level :: "(state \<Rightarrow> state result) list" where
  "spec_top_level =
     [class_Dog, assign_my_dog, call_my_dog_bark,
      class_Animal, class_Cat, assign_my_cat, call_my_cat_speak]"

section \<open>Properties\<close>

subsection \<open>Evaluation lemmas\<close>

lemmas method_defs =
  Dog_init_def Dog_bark_def Animal_init_def Animal_speak_def Cat_init_def Cat_speak_def
  py_super_def call_base_def py_isinstance_def apply_function_def setattr_def mangle_def
  is_dunder_def py_print_def py_str_def

lemmas statement_defs =
  class_Dog_def assign_my_dog_def print_my_dog_name_def call_my_dog_bark_def class_Animal_def
  class_Cat_def assign_my_cat_def call_my_cat_speak_def load_global_def store_global_def
  call_def call_method_def getattr_def is_dunder_def initial_state_def

lemma mangle_Animal_name: "mangle (class_name Animal) ''__name'' = ''_Animal__name''"
  by (simp add: mangle_def is_dunder_def)

lemma Dog_bark_result:
  "Dog_bark self st = Inr (PNone, st\<lparr>stdout := stdout st @ ''Woof!\<newline>''\<rparr>)"
  by (simp add: Dog_bark_def py_print_def py_str_def)

lemma Animal_speak_result:
  "Animal_speak self st = Inr (PNone, st\<lparr>stdout := stdout st @ ''Generic animal sound\<newline>''\<rparr>)"
  by (simp add: Animal_speak_def py_print_def py_str_def)

lemma Cat_speak_result:
  "Cat_speak self st = Inr (PNone, st\<lparr>stdout := stdout st @ ''Meow!\<newline>''\<rparr>)"
  by (simp add: Cat_speak_def py_print_def py_str_def)

lemma instantiate_Dog:
  "instantiate Dog [name, breed] st =
     Inr (PRef (length (heap st)),
          st\<lparr>heap := heap st @
             [\<lparr>ob_type = Dog, ob_dict = [''name'' \<mapsto> name, ''breed'' \<mapsto> breed]\<rparr>]\<rparr>)"
  by (simp add: instantiate_def method_defs)

lemma instantiate_Animal:
  "instantiate Animal [name] st =
     Inr (PRef (length (heap st)),
          st\<lparr>heap := heap st @ [\<lparr>ob_type = Animal, ob_dict = [''_Animal__name'' \<mapsto> name]\<rparr>]\<rparr>)"
  by (simp add: instantiate_def method_defs)

lemma instantiate_Cat:
  "instantiate Cat [name] st =
     Inr (PRef (length (heap st)),
          st\<lparr>heap := heap st @ [\<lparr>ob_type = Cat, ob_dict = [''_Animal__name'' \<mapsto> name]\<rparr>]\<rparr>)"
  by (simp add: instantiate_def method_defs)

text \<open>Reading an attribute of the instance allocated last.\<close>

lemma getattr_last:
  "heap st = h @ [ob] \<Longrightarrow>
   getattr (PRef (length h)) n st =
     (case ob_dict ob n of
        Some x \<Rightarrow> Inr x
      | None \<Rightarrow>
          (case find_in_mro (mro (ob_type ob)) n of
             Some f \<Rightarrow> Inr (PMethod f (length h))
           | None \<Rightarrow> if is_dunder n then Inl Unmodelled else Inl (AttributeError (ob_type ob) n)))"
  by (simp add: getattr_def)

text \<open>The state after each statement of the module, from the empty one.\<close>

lemma run_1:
  "exec (take 1 module_body) initial_state =
     Inr \<lparr>globals = [''Dog'' \<mapsto> PClass Dog], heap = [], stdout = []\<rparr>"
  by (simp add: module_body_def statement_defs)

lemma run_2:
  "exec (take 2 module_body) initial_state =
     Inr \<lparr>globals = [''Dog'' \<mapsto> PClass Dog, ''my_dog'' \<mapsto> PRef 0],
          heap = [\<lparr>ob_type = Dog, ob_dict = [''name'' \<mapsto> PStr ''Fido'', ''breed'' \<mapsto> PStr ''Labrador'']\<rparr>],
          stdout = []\<rparr>"
  by (simp add: module_body_def statement_defs instantiate_Dog)

lemma run_3:
  "exec (take 3 module_body) initial_state =
     Inr \<lparr>globals = [''Dog'' \<mapsto> PClass Dog, ''my_dog'' \<mapsto> PRef 0],
          heap = [\<lparr>ob_type = Dog, ob_dict = [''name'' \<mapsto> PStr ''Fido'', ''breed'' \<mapsto> PStr ''Labrador'']\<rparr>],
          stdout = ''Fido\<newline>''\<rparr>"
  by (simp add: module_body_def statement_defs instantiate_Dog py_print_def py_str_def)

lemma run_4:
  "exec (take 4 module_body) initial_state =
     Inr \<lparr>globals = [''Dog'' \<mapsto> PClass Dog, ''my_dog'' \<mapsto> PRef 0],
          heap = [\<lparr>ob_type = Dog, ob_dict = [''name'' \<mapsto> PStr ''Fido'', ''breed'' \<mapsto> PStr ''Labrador'']\<rparr>],
          stdout = ''Fido\<newline>Woof!\<newline>''\<rparr>"
  by (simp add: module_body_def statement_defs instantiate_Dog py_print_def py_str_def
      apply_function_def Dog_bark_result)

lemma run_5:
  "exec (take 5 module_body) initial_state =
     Inr \<lparr>globals = [''Dog'' \<mapsto> PClass Dog, ''my_dog'' \<mapsto> PRef 0, ''Animal'' \<mapsto> PClass Animal],
          heap = [\<lparr>ob_type = Dog, ob_dict = [''name'' \<mapsto> PStr ''Fido'', ''breed'' \<mapsto> PStr ''Labrador'']\<rparr>],
          stdout = ''Fido\<newline>Woof!\<newline>''\<rparr>"
  by (simp add: module_body_def statement_defs instantiate_Dog py_print_def py_str_def
      apply_function_def Dog_bark_result)

lemma run_6:
  "exec (take 6 module_body) initial_state =
     Inr \<lparr>globals = [''Dog'' \<mapsto> PClass Dog, ''my_dog'' \<mapsto> PRef 0, ''Animal'' \<mapsto> PClass Animal,
                     ''Cat'' \<mapsto> PClass Cat],
          heap = [\<lparr>ob_type = Dog, ob_dict = [''name'' \<mapsto> PStr ''Fido'', ''breed'' \<mapsto> PStr ''Labrador'']\<rparr>],
          stdout = ''Fido\<newline>Woof!\<newline>''\<rparr>"
  by (simp add: module_body_def statement_defs instantiate_Dog py_print_def py_str_def
      apply_function_def Dog_bark_result)

lemma run_7:
  "exec (take 7 module_body) initial_state =
     Inr \<lparr>globals = [''Dog'' \<mapsto> PClass Dog, ''my_dog'' \<mapsto> PRef 0, ''Animal'' \<mapsto> PClass Animal,
                     ''Cat'' \<mapsto> PClass Cat, ''my_cat'' \<mapsto> PRef 1],
          heap = [\<lparr>ob_type = Dog, ob_dict = [''name'' \<mapsto> PStr ''Fido'', ''breed'' \<mapsto> PStr ''Labrador'']\<rparr>,
                  \<lparr>ob_type = Cat, ob_dict = [''_Animal__name'' \<mapsto> PStr ''Whiskers'']\<rparr>],
          stdout = ''Fido\<newline>Woof!\<newline>''\<rparr>"
  by (simp add: module_body_def statement_defs instantiate_Dog instantiate_Cat py_print_def
      py_str_def apply_function_def Dog_bark_result)

lemma run_8:
  "main =
     Inr \<lparr>globals = [''Dog'' \<mapsto> PClass Dog, ''my_dog'' \<mapsto> PRef 0, ''Animal'' \<mapsto> PClass Animal,
                     ''Cat'' \<mapsto> PClass Cat, ''my_cat'' \<mapsto> PRef 1],
          heap = [\<lparr>ob_type = Dog, ob_dict = [''name'' \<mapsto> PStr ''Fido'', ''breed'' \<mapsto> PStr ''Labrador'']\<rparr>,
                  \<lparr>ob_type = Cat, ob_dict = [''_Animal__name'' \<mapsto> PStr ''Whiskers'']\<rparr>],
          stdout = ''Fido\<newline>Woof!\<newline>Meow!\<newline>''\<rparr>"
  by (simp add: main_def module_body_def statement_defs instantiate_Dog instantiate_Cat
      py_print_def py_str_def apply_function_def Dog_bark_result Cat_speak_result)

lemma run_spec_top_level:
  "exec spec_top_level initial_state =
     Inr \<lparr>globals = [''Dog'' \<mapsto> PClass Dog, ''my_dog'' \<mapsto> PRef 0, ''Animal'' \<mapsto> PClass Animal,
                     ''Cat'' \<mapsto> PClass Cat, ''my_cat'' \<mapsto> PRef 1],
          heap = [\<lparr>ob_type = Dog, ob_dict = [''name'' \<mapsto> PStr ''Fido'', ''breed'' \<mapsto> PStr ''Labrador'']\<rparr>,
                  \<lparr>ob_type = Cat, ob_dict = [''_Animal__name'' \<mapsto> PStr ''Whiskers'']\<rparr>],
          stdout = ''Woof!\<newline>Meow!\<newline>''\<rparr>"
  by (simp add: spec_top_level_def statement_defs instantiate_Dog instantiate_Cat
      apply_function_def Dog_bark_result Cat_speak_result)

subsection \<open>The top level and its console output\<close>

text \<open>
  The seven steps the specification lists leave out line 13, \<^verbatim>\<open>print(my_dog.name)\<close>:
  the module has eight statements, and its console output differs from the output of
  the seven listed steps, which lacks the line \<^verbatim>\<open>Fido\<close>.
\<close>

theorem spec_top_level_is_not_the_script:
  "length module_body \<noteq> length spec_top_level \<and>
   console main \<noteq> console (exec spec_top_level initial_state) \<and>
   console (exec spec_top_level initial_state) = Inr ''Woof!\<newline>Meow!\<newline>''"
  by (simp add: run_8 run_spec_top_level console_def) (simp add: module_body_def spec_top_level_def)

text \<open>
  C1, amended. The top level consists, in order, of eight statements: define \<open>Dog\<close>,
  instantiate it, print the instance's \<open>name\<close> attribute, invoke \<open>bark\<close>, define
  \<open>Animal\<close>, define \<open>Cat\<close>, instantiate \<open>Cat\<close>, invoke \<open>speak\<close>. The definitions and
  the instantiations write nothing; the print and the two invoked methods write one line
  each; the console output of the script is exactly the three lines \<^verbatim>\<open>Fido\<close>,
  \<^verbatim>\<open>Woof!\<close>, \<^verbatim>\<open>Meow!\<close>.
\<close>

theorem script_console_output:
  "module_body =
     [class_Dog, assign_my_dog, print_my_dog_name, call_my_dog_bark,
      class_Animal, class_Cat, assign_my_cat, call_my_cat_speak] \<and>
   console (exec (take 1 module_body) initial_state) = Inr [] \<and>
   console (exec (take 2 module_body) initial_state) = Inr [] \<and>
   console (exec (take 3 module_body) initial_state) = Inr ''Fido\<newline>'' \<and>
   console (exec (take 4 module_body) initial_state) = Inr ''Fido\<newline>Woof!\<newline>'' \<and>
   console (exec (take 5 module_body) initial_state) = Inr ''Fido\<newline>Woof!\<newline>'' \<and>
   console (exec (take 6 module_body) initial_state) = Inr ''Fido\<newline>Woof!\<newline>'' \<and>
   console (exec (take 7 module_body) initial_state) = Inr ''Fido\<newline>Woof!\<newline>'' \<and>
   console main = Inr ''Fido\<newline>Woof!\<newline>Meow!\<newline>''"
proof -
  have "module_body =
     [class_Dog, assign_my_dog, print_my_dog_name, call_my_dog_bark,
      class_Animal, class_Cat, assign_my_cat, call_my_cat_speak]"
    by (rule module_body_def)
  moreover have "console (exec (take 1 module_body) initial_state) = Inr []"
    and "console (exec (take 2 module_body) initial_state) = Inr []"
    by (simp_all only: run_1 run_2 console_def sum.case state.simps)
  moreover have "console (exec (take 3 module_body) initial_state) = Inr ''Fido\<newline>''"
    by (simp only: run_3 console_def sum.case state.simps)
  moreover have "console (exec (take 4 module_body) initial_state) = Inr ''Fido\<newline>Woof!\<newline>''"
    and "console (exec (take 5 module_body) initial_state) = Inr ''Fido\<newline>Woof!\<newline>''"
    and "console (exec (take 6 module_body) initial_state) = Inr ''Fido\<newline>Woof!\<newline>''"
    and "console (exec (take 7 module_body) initial_state) = Inr ''Fido\<newline>Woof!\<newline>''"
    by (simp_all only: run_4 run_5 run_6 run_7 console_def sum.case state.simps)
  moreover have "console main = Inr ''Fido\<newline>Woof!\<newline>Meow!\<newline>''"
    by (simp only: run_8 console_def sum.case state.simps)
  ultimately show ?thesis by blast
qed

subsection \<open>\<open>Dog\<close>\<close>

text \<open>
  C2. For every pair of values \<open>name\<close> and \<open>breed\<close>, and from every state,
  \<^verbatim>\<open>Dog(name, breed)\<close> returns a fresh instance whose attribute \<open>name\<close> reads as the
  given name and whose attribute \<open>breed\<close> reads as the given breed; the instance
  dictionary holds these two entries, verbatim, and nothing else.
\<close>

theorem Dog_stores_name_and_breed:
  "\<exists>st1. call (PClass Dog) [name, breed] st = Inr (PRef (length (heap st)), st1) \<and>
         getattr (PRef (length (heap st))) ''name'' st1 = Inr name \<and>
         getattr (PRef (length (heap st))) ''breed'' st1 = Inr breed \<and>
         ob_type (heap st1 ! length (heap st)) = Dog \<and>
         ob_dict (heap st1 ! length (heap st)) = [''name'' \<mapsto> name, ''breed'' \<mapsto> breed]"
proof -
  let ?ob = "\<lparr>ob_type = Dog, ob_dict = [''name'' \<mapsto> name, ''breed'' \<mapsto> breed]\<rparr>"
  let ?st1 = "st\<lparr>heap := heap st @ [?ob]\<rparr>"
  have made: "call (PClass Dog) [name, breed] st = Inr (PRef (length (heap st)), ?st1)"
    by (simp add: call_def instantiate_Dog)
  have h: "heap ?st1 = heap st @ [?ob]"
    by simp
  have "getattr (PRef (length (heap st))) ''name'' ?st1 = Inr name"
    and "getattr (PRef (length (heap st))) ''breed'' ?st1 = Inr breed"
    by (simp_all add: getattr_last [OF h])
  with made show ?thesis
    by (intro exI [of _ ?st1]) simp
qed

text \<open>In particular \<^verbatim>\<open>Dog("Fido", "Labrador")\<close>, as the script's first instance.\<close>

theorem Dog_Fido_Labrador:
  "\<exists>st1. call (PClass Dog) [PStr ''Fido'', PStr ''Labrador''] initial_state = Inr (PRef 0, st1) \<and>
         getattr (PRef 0) ''name'' st1 = Inr (PStr ''Fido'') \<and>
         getattr (PRef 0) ''breed'' st1 = Inr (PStr ''Labrador'')"
  using Dog_stores_name_and_breed [of "PStr ''Fido''" "PStr ''Labrador''" initial_state]
  by (auto simp add: initial_state_def)

text \<open>
  C3. For every \<open>Dog\<close> instance, whatever name and breed it was constructed with,
  \<^verbatim>\<open>.bark()\<close> resolves to \<open>Dog.bark\<close>, appends exactly the line \<^verbatim>\<open>Woof!\<close> to the
  console, changes nothing else and returns \<^verbatim>\<open>None\<close>; the body gives the same
  result on any \<open>self\<close> in any state.
\<close>

theorem Dog_bark_writes_Woof:
  "(\<exists>st1. call (PClass Dog) [name, breed] st = Inr (PRef (length (heap st)), st1) \<and>
          getattr (PRef (length (heap st))) ''bark'' st1 = Inr (PMethod Fn_Dog_bark (length (heap st))) \<and>
          call_method (PRef (length (heap st))) ''bark'' [] st1 =
            Inr (PNone, st1\<lparr>stdout := stdout st1 @ ''Woof!\<newline>''\<rparr>)) \<and>
   Dog_bark self st' = Inr (PNone, st'\<lparr>stdout := stdout st' @ ''Woof!\<newline>''\<rparr>)"
proof
  let ?ob = "\<lparr>ob_type = Dog, ob_dict = [''name'' \<mapsto> name, ''breed'' \<mapsto> breed]\<rparr>"
  let ?st1 = "st\<lparr>heap := heap st @ [?ob]\<rparr>"
  have h: "heap ?st1 = heap st @ [?ob]"
    by simp
  have bound: "getattr (PRef (length (heap st))) ''bark'' ?st1 = Inr (PMethod Fn_Dog_bark (length (heap st)))"
    by (simp add: getattr_last [OF h])
  then have "call_method (PRef (length (heap st))) ''bark'' [] ?st1 =
      Inr (PNone, ?st1\<lparr>stdout := stdout ?st1 @ ''Woof!\<newline>''\<rparr>)"
    by (simp add: call_method_def call_def apply_function_def Dog_bark_result)
  with bound show "\<exists>st1. call (PClass Dog) [name, breed] st = Inr (PRef (length (heap st)), st1) \<and>
          getattr (PRef (length (heap st))) ''bark'' st1 = Inr (PMethod Fn_Dog_bark (length (heap st))) \<and>
          call_method (PRef (length (heap st))) ''bark'' [] st1 =
            Inr (PNone, st1\<lparr>stdout := stdout st1 @ ''Woof!\<newline>''\<rparr>)"
    by (intro exI [of _ ?st1]) (simp add: call_def instantiate_Dog)
next
  show "Dog_bark self st' = Inr (PNone, st'\<lparr>stdout := stdout st' @ ''Woof!\<newline>''\<rparr>)"
    by (rule Dog_bark_result)
qed

subsection \<open>\<open>Animal\<close> and \<open>Cat\<close>\<close>

text \<open>
  C4. \<^verbatim>\<open>Cat("Whiskers")\<close> returns an instance of \<open>Cat\<close> that is an instance of
  \<open>Animal\<close> too and answers every name of \<open>Animal\<close>'s interface with a bound method;
  its \<^verbatim>\<open>.speak()\<close> resolves to \<open>Cat.speak\<close> and appends exactly the line \<^verbatim>\<open>Meow!\<close>
  to the console, not \<^verbatim>\<open>Generic animal sound\<close>.
\<close>

theorem Cat_Whiskers_is_an_Animal_that_says_Meow:
  "\<exists>st1 st2.
     call (PClass Cat) [PStr ''Whiskers''] st = Inr (PRef (length (heap st)), st1) \<and>
     py_isinstance (PRef (length (heap st))) Cat st1 \<and>
     py_isinstance (PRef (length (heap st))) Animal st1 \<and>
     map fst (class_dict Animal) = [''__init__'', ''speak''] \<and>
     getattr (PRef (length (heap st))) ''__init__'' st1 = Inr (PMethod Fn_Cat_init (length (heap st))) \<and>
     getattr (PRef (length (heap st))) ''speak'' st1 = Inr (PMethod Fn_Cat_speak (length (heap st))) \<and>
     call_method (PRef (length (heap st))) ''speak'' [] st1 = Inr (PNone, st2) \<and>
     stdout st2 = stdout st1 @ ''Meow!\<newline>'' \<and>
     stdout st2 \<noteq> stdout st1 @ ''Generic animal sound\<newline>''"
proof -
  let ?a = "length (heap st)"
  let ?ob = "\<lparr>ob_type = Cat, ob_dict = [''_Animal__name'' \<mapsto> PStr ''Whiskers'']\<rparr>"
  let ?st1 = "st\<lparr>heap := heap st @ [?ob]\<rparr>"
  let ?st2 = "?st1\<lparr>stdout := stdout ?st1 @ ''Meow!\<newline>''\<rparr>"
  have made: "call (PClass Cat) [PStr ''Whiskers''] st = Inr (PRef ?a, ?st1)"
    by (simp add: call_def instantiate_Cat)
  have h: "heap ?st1 = heap st @ [?ob]"
    by simp
  have is_a: "py_isinstance (PRef ?a) Cat ?st1" "py_isinstance (PRef ?a) Animal ?st1"
    by (simp_all add: py_isinstance_def)
  have init: "getattr (PRef ?a) ''__init__'' ?st1 = Inr (PMethod Fn_Cat_init ?a)"
    by (simp add: getattr_last [OF h])
  have speak: "getattr (PRef ?a) ''speak'' ?st1 = Inr (PMethod Fn_Cat_speak ?a)"
    by (simp add: getattr_last [OF h])
  then have said: "call_method (PRef ?a) ''speak'' [] ?st1 = Inr (PNone, ?st2)"
    by (simp add: call_method_def call_def apply_function_def Cat_speak_result)
  have out: "stdout ?st2 = stdout ?st1 @ ''Meow!\<newline>''"
    "stdout ?st2 \<noteq> stdout ?st1 @ ''Generic animal sound\<newline>''"
    by simp_all
  from made is_a init speak said out show ?thesis
    by (intro exI [of _ ?st1] exI [of _ ?st2]) simp
qed

text \<open>
  C5. The one call \<^verbatim>\<open>x.speak()\<close> serves both variants: on an instance made by
  \<^verbatim>\<open>Animal(name)\<close> it appends exactly the line \<^verbatim>\<open>Generic animal sound\<close>, on one made
  by \<^verbatim>\<open>Cat(name)\<close> exactly the line \<^verbatim>\<open>Meow!\<close>, whatever the name and the state; it
  returns \<^verbatim>\<open>None\<close> and changes nothing but the console.
\<close>

theorem speak_depends_on_the_variant_only:
  "c \<in> {Animal, Cat} \<Longrightarrow>
   \<exists>st1. call (PClass c) [name] st = Inr (PRef (length (heap st)), st1) \<and>
         call_method (PRef (length (heap st))) ''speak'' [] st1 =
           Inr (PNone, st1\<lparr>stdout := stdout st1 @
                  (if c = Cat then ''Meow!\<newline>'' else ''Generic animal sound\<newline>'')\<rparr>)"
proof -
  assume "c \<in> {Animal, Cat}"
  then consider (animal) "c = Animal" | (cat) "c = Cat"
    by blast
  then show ?thesis
  proof cases
    case animal
    let ?st1 = "st\<lparr>heap := heap st @ [\<lparr>ob_type = Animal, ob_dict = [''_Animal__name'' \<mapsto> name]\<rparr>]\<rparr>"
    have "heap ?st1 = heap st @ [\<lparr>ob_type = Animal, ob_dict = [''_Animal__name'' \<mapsto> name]\<rparr>]"
      by simp
    then have "getattr (PRef (length (heap st))) ''speak'' ?st1 =
        Inr (PMethod Fn_Animal_speak (length (heap st)))"
      by (simp add: getattr_last)
    then have "call_method (PRef (length (heap st))) ''speak'' [] ?st1 =
        Inr (PNone, ?st1\<lparr>stdout := stdout ?st1 @ ''Generic animal sound\<newline>''\<rparr>)"
      by (simp add: call_method_def call_def apply_function_def Animal_speak_result)
    with animal show ?thesis
      by (intro exI [of _ ?st1]) (simp add: call_def instantiate_Animal)
  next
    case cat
    let ?st1 = "st\<lparr>heap := heap st @ [\<lparr>ob_type = Cat, ob_dict = [''_Animal__name'' \<mapsto> name]\<rparr>]\<rparr>"
    have "heap ?st1 = heap st @ [\<lparr>ob_type = Cat, ob_dict = [''_Animal__name'' \<mapsto> name]\<rparr>]"
      by simp
    then have "getattr (PRef (length (heap st))) ''speak'' ?st1 =
        Inr (PMethod Fn_Cat_speak (length (heap st)))"
      by (simp add: getattr_last)
    then have "call_method (PRef (length (heap st))) ''speak'' [] ?st1 =
        Inr (PNone, ?st1\<lparr>stdout := stdout ?st1 @ ''Meow!\<newline>''\<rparr>)"
      by (simp add: call_method_def call_def apply_function_def Cat_speak_result)
    with cat show ?thesis
      by (intro exI [of _ ?st1]) (simp add: call_def instantiate_Cat)
  qed
qed

text \<open>A plain \<^verbatim>\<open>Animal("X")\<close> and a \<^verbatim>\<open>Cat("X")\<close>, each from the empty state.\<close>

theorem speak_of_Animal_X_and_Cat_X:
  "Animal \<in> {Animal, Cat} \<and> Cat \<in> {Animal, Cat} \<and>
   (\<exists>st1. call (PClass Animal) [PStr ''X''] initial_state = Inr (PRef 0, st1) \<and>
          console (map_sum id snd (call_method (PRef 0) ''speak'' [] st1)) =
            Inr ''Generic animal sound\<newline>'') \<and>
   (\<exists>st1. call (PClass Cat) [PStr ''X''] initial_state = Inr (PRef 0, st1) \<and>
          console (map_sum id snd (call_method (PRef 0) ''speak'' [] st1)) = Inr ''Meow!\<newline>'')"
proof -
  have a: "Animal \<in> {Animal, Cat}" and c: "Cat \<in> {Animal, Cat}"
    by simp_all
  show ?thesis
    using speak_depends_on_the_variant_only [OF a, of "PStr ''X''" initial_state]
      speak_depends_on_the_variant_only [OF c, of "PStr ''X''" initial_state]
    by (auto simp add: initial_state_def console_def call_def instantiate_Animal instantiate_Cat)
qed

text \<open>
  C6. For every name and from every state, \<^verbatim>\<open>Cat(name)\<close> and \<^verbatim>\<open>Animal(name)\<close>
  return instances with the same dictionary, which holds the one entry that
  \<open>Animal.__init__\<close> stores; the two resulting states differ in the class of the new
  instance only. On an instance of \<open>Cat\<close>, \<open>Cat.__init__\<close> does what \<open>Animal.__init__\<close>
  does.
\<close>

theorem Cat_init_delegates_to_Animal_init:
  "(\<exists>s1 s2. call (PClass Cat) [name] st = Inr (PRef (length (heap st)), s1) \<and>
            call (PClass Animal) [name] st = Inr (PRef (length (heap st)), s2) \<and>
            ob_dict (heap s1 ! length (heap st)) = ob_dict (heap s2 ! length (heap st)) \<and>
            ob_dict (heap s1 ! length (heap st)) = [''_Animal__name'' \<mapsto> name] \<and>
            s1 = s2\<lparr>heap := (heap s2)[length (heap st) :=
                        (heap s2 ! length (heap st))\<lparr>ob_type := Cat\<rparr>]\<rparr>) \<and>
   (py_isinstance self Cat st' \<longrightarrow> Cat_init self name st' = Animal_init self name st')"
proof (intro conjI impI)
  let ?s1 = "st\<lparr>heap := heap st @ [\<lparr>ob_type = Cat, ob_dict = [''_Animal__name'' \<mapsto> name]\<rparr>]\<rparr>"
  let ?s2 = "st\<lparr>heap := heap st @ [\<lparr>ob_type = Animal, ob_dict = [''_Animal__name'' \<mapsto> name]\<rparr>]\<rparr>"
  have "call (PClass Cat) [name] st = Inr (PRef (length (heap st)), ?s1)"
    and "call (PClass Animal) [name] st = Inr (PRef (length (heap st)), ?s2)"
    by (simp_all add: call_def instantiate_Cat instantiate_Animal)
  then show "\<exists>s1 s2. call (PClass Cat) [name] st = Inr (PRef (length (heap st)), s1) \<and>
            call (PClass Animal) [name] st = Inr (PRef (length (heap st)), s2) \<and>
            ob_dict (heap s1 ! length (heap st)) = ob_dict (heap s2 ! length (heap st)) \<and>
            ob_dict (heap s1 ! length (heap st)) = [''_Animal__name'' \<mapsto> name] \<and>
            s1 = s2\<lparr>heap := (heap s2)[length (heap st) :=
                        (heap s2 ! length (heap st))\<lparr>ob_type := Cat\<rparr>]\<rparr>"
    by (intro exI [of _ ?s1] exI [of _ ?s2]) simp
next
  assume cat: "py_isinstance self Cat st'"
  then obtain a where self: "self = PRef a" and a: "a < length (heap st')"
    and mem: "Cat \<in> set (mro (ob_type (heap st' ! a)))"
    by (auto simp add: py_isinstance_def split: pyval.splits)
  from mem have "ob_type (heap st' ! a) = Cat"
    by (cases "ob_type (heap st' ! a)") simp_all
  with self a cat show "Cat_init self name st' = Animal_init self name st'"
    by (simp add: Cat_init_def py_super_def call_base_def Animal_init_def setattr_def Let_def)
qed

text \<open>The instance of line 31, before its constructor has run.\<close>

theorem Cat_init_on_fresh_Whiskers:
  "py_isinstance (PRef 0) Cat (initial_state\<lparr>heap := [\<lparr>ob_type = Cat, ob_dict = Map.empty\<rparr>]\<rparr>) \<and>
   Cat_init (PRef 0) (PStr ''Whiskers'') (initial_state\<lparr>heap := [\<lparr>ob_type = Cat, ob_dict = Map.empty\<rparr>]\<rparr>) =
     Animal_init (PRef 0) (PStr ''Whiskers'') (initial_state\<lparr>heap := [\<lparr>ob_type = Cat, ob_dict = Map.empty\<rparr>]\<rparr>) \<and>
   Cat_init (PRef 0) (PStr ''Whiskers'') (initial_state\<lparr>heap := [\<lparr>ob_type = Cat, ob_dict = Map.empty\<rparr>]\<rparr>) =
     Inr (PNone, initial_state\<lparr>heap := [\<lparr>ob_type = Cat, ob_dict = [''_Animal__name'' \<mapsto> PStr ''Whiskers'']\<rparr>]\<rparr>)"
proof -
  let ?st = "initial_state\<lparr>heap := [\<lparr>ob_type = Cat, ob_dict = Map.empty\<rparr>]\<rparr>"
  have is_cat: "py_isinstance (PRef 0) Cat ?st"
    by (simp add: py_isinstance_def)
  have "Animal_init (PRef 0) (PStr ''Whiskers'') ?st =
      Inr (PNone, initial_state\<lparr>heap := [\<lparr>ob_type = Cat, ob_dict = [''_Animal__name'' \<mapsto> PStr ''Whiskers'']\<rparr>]\<rparr>)"
    by (simp add: Animal_init_def setattr_def mangle_Animal_name del: class_name.simps)
  with is_cat Cat_init_delegates_to_Animal_init [of "PStr ''Whiskers''" initial_state "PRef 0" ?st]
  show ?thesis
    by simp
qed

subsection \<open>No failure, no mutation\<close>

text \<open>
  C7. Every statement of the script succeeds, in order, from the empty state, among
  them \<^verbatim>\<open>Dog("Fido", "Labrador")\<close>, the read of \<^verbatim>\<open>my_dog.name\<close>, \<^verbatim>\<open>my_dog.bark()\<close>,
  \<^verbatim>\<open>Cat("Whiskers")\<close> and \<^verbatim>\<open>my_cat.speak()\<close>. More generally a construction with the
  constructor's number of arguments succeeds for any argument values in any state, and
  so do \<open>bark\<close> and \<open>speak\<close> on the instances so made and their bodies on any \<open>self\<close>.
\<close>

theorem script_raises_no_error:
  "(\<exists>s1 s2 s3 s4 s5 s6 s7 s8 d.
      class_Dog initial_state = Inr s1 \<and> assign_my_dog s1 = Inr s2 \<and>
      load_global ''my_dog'' s2 = Inr d \<and> getattr d ''name'' s2 = Inr (PStr ''Fido'') \<and>
      print_my_dog_name s2 = Inr s3 \<and> call_my_dog_bark s3 = Inr s4 \<and>
      class_Animal s4 = Inr s5 \<and> class_Cat s5 = Inr s6 \<and>
      assign_my_cat s6 = Inr s7 \<and> call_my_cat_speak s7 = Inr s8 \<and> main = Inr s8) \<and>
   succeeds main \<and>
   (\<exists>st1. call (PClass Dog) [name, breed] st = Inr (PRef (length (heap st)), st1) \<and>
          succeeds (getattr (PRef (length (heap st))) ''name'' st1) \<and>
          succeeds (call_method (PRef (length (heap st))) ''bark'' [] st1)) \<and>
   (\<exists>st1. call (PClass Animal) [name] st = Inr (PRef (length (heap st)), st1) \<and>
          succeeds (call_method (PRef (length (heap st))) ''speak'' [] st1)) \<and>
   (\<exists>st1. call (PClass Cat) [name] st = Inr (PRef (length (heap st)), st1) \<and>
          succeeds (call_method (PRef (length (heap st))) ''speak'' [] st1)) \<and>
   succeeds (Dog_bark self st) \<and> succeeds (Animal_speak self st) \<and> succeeds (Cat_speak self st)"
proof (intro conjI)
  let ?dog = "\<lparr>ob_type = Dog, ob_dict = [''name'' \<mapsto> PStr ''Fido'', ''breed'' \<mapsto> PStr ''Labrador'']\<rparr>"
  let ?cat = "\<lparr>ob_type = Cat, ob_dict = [''_Animal__name'' \<mapsto> PStr ''Whiskers'']\<rparr>"
  let ?s1 = "\<lparr>globals = [''Dog'' \<mapsto> PClass Dog], heap = [], stdout = []\<rparr>"
  let ?s2 = "\<lparr>globals = [''Dog'' \<mapsto> PClass Dog, ''my_dog'' \<mapsto> PRef 0], heap = [?dog], stdout = []\<rparr>"
  let ?s3 = "?s2\<lparr>stdout := ''Fido\<newline>''\<rparr>"
  let ?s4 = "?s2\<lparr>stdout := ''Fido\<newline>Woof!\<newline>''\<rparr>"
  let ?s5 = "?s4\<lparr>globals := (globals ?s4)(''Animal'' \<mapsto> PClass Animal)\<rparr>"
  let ?s6 = "?s5\<lparr>globals := (globals ?s5)(''Cat'' \<mapsto> PClass Cat)\<rparr>"
  let ?s7 = "?s6\<lparr>globals := (globals ?s6)(''my_cat'' \<mapsto> PRef 1), heap := [?dog, ?cat]\<rparr>"
  let ?s8 = "?s7\<lparr>stdout := ''Fido\<newline>Woof!\<newline>Meow!\<newline>''\<rparr>"
  have 1: "class_Dog initial_state = Inr ?s1"
    by (simp add: class_Dog_def store_global_def initial_state_def)
  have 2: "assign_my_dog ?s1 = Inr ?s2"
    by (simp add: assign_my_dog_def load_global_def call_def instantiate_Dog store_global_def)
  have d: "load_global ''my_dog'' ?s2 = Inr (PRef 0)"
    by (simp add: load_global_def)
  have n: "getattr (PRef 0) ''name'' ?s2 = Inr (PStr ''Fido'')"
    by (simp add: getattr_def)
  have 3: "print_my_dog_name ?s2 = Inr ?s3"
    by (simp add: print_my_dog_name_def d n py_print_def py_str_def)
  have 4: "call_my_dog_bark ?s3 = Inr ?s4"
    by (simp add: call_my_dog_bark_def load_global_def call_method_def getattr_def call_def
        apply_function_def Dog_bark_result)
  have 5: "class_Animal ?s4 = Inr ?s5"
    by (simp add: class_Animal_def store_global_def)
  have 6: "class_Cat ?s5 = Inr ?s6"
    by (simp add: class_Cat_def load_global_def store_global_def)
  have 7: "assign_my_cat ?s6 = Inr ?s7"
    by (simp add: assign_my_cat_def load_global_def call_def instantiate_Cat store_global_def)
  have 8: "call_my_cat_speak ?s7 = Inr ?s8"
    by (simp add: call_my_cat_speak_def load_global_def call_method_def getattr_def call_def
        apply_function_def Cat_speak_result)
  have run: "main = Inr ?s8"
    by (simp add: run_8)
  from 1 2 d n 3 4 5 6 7 8 run
  show "\<exists>s1 s2 s3 s4 s5 s6 s7 s8 d.
      class_Dog initial_state = Inr s1 \<and> assign_my_dog s1 = Inr s2 \<and>
      load_global ''my_dog'' s2 = Inr d \<and> getattr d ''name'' s2 = Inr (PStr ''Fido'') \<and>
      print_my_dog_name s2 = Inr s3 \<and> call_my_dog_bark s3 = Inr s4 \<and>
      class_Animal s4 = Inr s5 \<and> class_Cat s5 = Inr s6 \<and>
      assign_my_cat s6 = Inr s7 \<and> call_my_cat_speak s7 = Inr s8 \<and> main = Inr s8"
    by blast
  show "succeeds main"
    by (simp add: succeeds_def run_8)
next
  let ?st1 = "st\<lparr>heap := heap st @ [\<lparr>ob_type = Dog, ob_dict = [''name'' \<mapsto> name, ''breed'' \<mapsto> breed]\<rparr>]\<rparr>"
  have h: "heap ?st1 = heap st @ [\<lparr>ob_type = Dog, ob_dict = [''name'' \<mapsto> name, ''breed'' \<mapsto> breed]\<rparr>]"
    by simp
  have "succeeds (getattr (PRef (length (heap st))) ''name'' ?st1)"
    and "succeeds (call_method (PRef (length (heap st))) ''bark'' [] ?st1)"
    by (simp_all add: succeeds_def call_method_def getattr_last [OF h] call_def
        apply_function_def Dog_bark_result)
  then show "\<exists>st1. call (PClass Dog) [name, breed] st = Inr (PRef (length (heap st)), st1) \<and>
          succeeds (getattr (PRef (length (heap st))) ''name'' st1) \<and>
          succeeds (call_method (PRef (length (heap st))) ''bark'' [] st1)"
    by (intro exI [of _ ?st1]) (simp add: call_def instantiate_Dog)
next
  let ?st1 = "st\<lparr>heap := heap st @ [\<lparr>ob_type = Animal, ob_dict = [''_Animal__name'' \<mapsto> name]\<rparr>]\<rparr>"
  have h: "heap ?st1 = heap st @ [\<lparr>ob_type = Animal, ob_dict = [''_Animal__name'' \<mapsto> name]\<rparr>]"
    by simp
  have "succeeds (call_method (PRef (length (heap st))) ''speak'' [] ?st1)"
    by (simp add: succeeds_def call_method_def getattr_last [OF h] call_def
        apply_function_def Animal_speak_result)
  then show "\<exists>st1. call (PClass Animal) [name] st = Inr (PRef (length (heap st)), st1) \<and>
          succeeds (call_method (PRef (length (heap st))) ''speak'' [] st1)"
    by (intro exI [of _ ?st1]) (simp add: call_def instantiate_Animal)
next
  let ?st1 = "st\<lparr>heap := heap st @ [\<lparr>ob_type = Cat, ob_dict = [''_Animal__name'' \<mapsto> name]\<rparr>]\<rparr>"
  have h: "heap ?st1 = heap st @ [\<lparr>ob_type = Cat, ob_dict = [''_Animal__name'' \<mapsto> name]\<rparr>]"
    by simp
  have "succeeds (call_method (PRef (length (heap st))) ''speak'' [] ?st1)"
    by (simp add: succeeds_def call_method_def getattr_last [OF h] call_def
        apply_function_def Cat_speak_result)
  then show "\<exists>st1. call (PClass Cat) [name] st = Inr (PRef (length (heap st)), st1) \<and>
          succeeds (call_method (PRef (length (heap st))) ''speak'' [] st1)"
    by (intro exI [of _ ?st1]) (simp add: call_def instantiate_Cat)
next
  show "succeeds (Dog_bark self st)"
    by (simp add: succeeds_def Dog_bark_result)
  show "succeeds (Animal_speak self st)"
    by (simp add: succeeds_def Animal_speak_result)
  show "succeeds (Cat_speak self st)"
    by (simp add: succeeds_def Cat_speak_result)
qed

text \<open>
  C8. Invoking \<open>bark\<close> on a constructed \<open>Dog\<close> leaves the heap as it was, so \<open>name\<close> and
  \<open>breed\<close> still read as the constructor's arguments; invoking \<open>speak\<close> on a constructed
  \<open>Animal\<close> or \<open>Cat\<close> leaves the heap as it was, so the stored name is unchanged; the
  three bodies leave the heap alone on any \<open>self\<close>. In the script, the \<open>Dog\<close> instance
  made by line 12 is the same after every later statement, and the \<open>Cat\<close> instance made
  by line 31 is the same after line 32.
\<close>

theorem instances_are_not_mutated:
  "(\<exists>s1 s2. call (PClass Dog) [name, breed] st = Inr (PRef (length (heap st)), s1) \<and>
            call_method (PRef (length (heap st))) ''bark'' [] s1 = Inr (PNone, s2) \<and>
            heap s2 = heap s1 \<and>
            getattr (PRef (length (heap st))) ''name'' s2 = Inr name \<and>
            getattr (PRef (length (heap st))) ''breed'' s2 = Inr breed) \<and>
   (\<exists>s1 s2. call (PClass Animal) [name] st = Inr (PRef (length (heap st)), s1) \<and>
            call_method (PRef (length (heap st))) ''speak'' [] s1 = Inr (PNone, s2) \<and>
            heap s2 = heap s1 \<and>
            getattr (PRef (length (heap st))) ''_Animal__name'' s2 = Inr name) \<and>
   (\<exists>s1 s2. call (PClass Cat) [name] st = Inr (PRef (length (heap st)), s1) \<and>
            call_method (PRef (length (heap st))) ''speak'' [] s1 = Inr (PNone, s2) \<and>
            heap s2 = heap s1 \<and>
            getattr (PRef (length (heap st))) ''_Animal__name'' s2 = Inr name) \<and>
   (\<exists>s. Dog_bark self st' = Inr (PNone, s) \<and> heap s = heap st') \<and>
   (\<exists>s. Animal_speak self st' = Inr (PNone, s) \<and> heap s = heap st') \<and>
   (\<exists>s. Cat_speak self st' = Inr (PNone, s) \<and> heap s = heap st') \<and>
   (\<exists>s2 s3 s4 s5 s6 s7 s8.
      exec (take 2 module_body) initial_state = Inr s2 \<and>
      exec (take 3 module_body) initial_state = Inr s3 \<and>
      exec (take 4 module_body) initial_state = Inr s4 \<and>
      exec (take 5 module_body) initial_state = Inr s5 \<and>
      exec (take 6 module_body) initial_state = Inr s6 \<and>
      exec (take 7 module_body) initial_state = Inr s7 \<and>
      main = Inr s8 \<and>
      length (heap s2) = 1 \<and> heap s3 = heap s2 \<and> heap s4 = heap s2 \<and> heap s5 = heap s2 \<and>
      heap s6 = heap s2 \<and> length (heap s7) = 2 \<and> take 1 (heap s7) = heap s2 \<and> heap s8 = heap s7)"
proof (intro conjI)
  let ?a = "length (heap st)"
  let ?ob = "\<lparr>ob_type = Dog, ob_dict = [''name'' \<mapsto> name, ''breed'' \<mapsto> breed]\<rparr>"
  let ?s1 = "st\<lparr>heap := heap st @ [?ob]\<rparr>"
  let ?s2 = "?s1\<lparr>stdout := stdout ?s1 @ ''Woof!\<newline>''\<rparr>"
  have h1: "heap ?s1 = heap st @ [?ob]"
    by simp
  have "call_method (PRef ?a) ''bark'' [] ?s1 = Inr (PNone, ?s2)"
    by (simp add: call_method_def getattr_last [OF h1] call_def apply_function_def Dog_bark_result)
  moreover have "getattr (PRef ?a) ''name'' ?s2 = Inr name"
    and "getattr (PRef ?a) ''breed'' ?s2 = Inr breed"
    by (simp_all add: getattr_def)
  ultimately show "\<exists>s1 s2. call (PClass Dog) [name, breed] st = Inr (PRef ?a, s1) \<and>
            call_method (PRef ?a) ''bark'' [] s1 = Inr (PNone, s2) \<and>
            heap s2 = heap s1 \<and>
            getattr (PRef ?a) ''name'' s2 = Inr name \<and>
            getattr (PRef ?a) ''breed'' s2 = Inr breed"
    by (intro exI [of _ ?s1] exI [of _ ?s2]) (simp add: call_def instantiate_Dog)
next
  let ?a = "length (heap st)"
  let ?ob = "\<lparr>ob_type = Animal, ob_dict = [''_Animal__name'' \<mapsto> name]\<rparr>"
  let ?s1 = "st\<lparr>heap := heap st @ [?ob]\<rparr>"
  let ?s2 = "?s1\<lparr>stdout := stdout ?s1 @ ''Generic animal sound\<newline>''\<rparr>"
  have h1: "heap ?s1 = heap st @ [?ob]"
    by simp
  have "call_method (PRef ?a) ''speak'' [] ?s1 = Inr (PNone, ?s2)"
    by (simp add: call_method_def getattr_last [OF h1] call_def apply_function_def
        Animal_speak_result)
  moreover have "getattr (PRef ?a) ''_Animal__name'' ?s2 = Inr name"
    by (simp add: getattr_def)
  ultimately show "\<exists>s1 s2. call (PClass Animal) [name] st = Inr (PRef ?a, s1) \<and>
            call_method (PRef ?a) ''speak'' [] s1 = Inr (PNone, s2) \<and>
            heap s2 = heap s1 \<and>
            getattr (PRef ?a) ''_Animal__name'' s2 = Inr name"
    by (intro exI [of _ ?s1] exI [of _ ?s2]) (simp add: call_def instantiate_Animal)
next
  let ?a = "length (heap st)"
  let ?ob = "\<lparr>ob_type = Cat, ob_dict = [''_Animal__name'' \<mapsto> name]\<rparr>"
  let ?s1 = "st\<lparr>heap := heap st @ [?ob]\<rparr>"
  let ?s2 = "?s1\<lparr>stdout := stdout ?s1 @ ''Meow!\<newline>''\<rparr>"
  have h1: "heap ?s1 = heap st @ [?ob]"
    by simp
  have "call_method (PRef ?a) ''speak'' [] ?s1 = Inr (PNone, ?s2)"
    by (simp add: call_method_def getattr_last [OF h1] call_def apply_function_def
        Cat_speak_result)
  moreover have "getattr (PRef ?a) ''_Animal__name'' ?s2 = Inr name"
    by (simp add: getattr_def)
  ultimately show "\<exists>s1 s2. call (PClass Cat) [name] st = Inr (PRef ?a, s1) \<and>
            call_method (PRef ?a) ''speak'' [] s1 = Inr (PNone, s2) \<and>
            heap s2 = heap s1 \<and>
            getattr (PRef ?a) ''_Animal__name'' s2 = Inr name"
    by (intro exI [of _ ?s1] exI [of _ ?s2]) (simp add: call_def instantiate_Cat)
next
  show "\<exists>s. Dog_bark self st' = Inr (PNone, s) \<and> heap s = heap st'"
    by (simp add: Dog_bark_result)
  show "\<exists>s. Animal_speak self st' = Inr (PNone, s) \<and> heap s = heap st'"
    by (simp add: Animal_speak_result)
  show "\<exists>s. Cat_speak self st' = Inr (PNone, s) \<and> heap s = heap st'"
    by (simp add: Cat_speak_result)
next
  show "\<exists>s2 s3 s4 s5 s6 s7 s8.
      exec (take 2 module_body) initial_state = Inr s2 \<and>
      exec (take 3 module_body) initial_state = Inr s3 \<and>
      exec (take 4 module_body) initial_state = Inr s4 \<and>
      exec (take 5 module_body) initial_state = Inr s5 \<and>
      exec (take 6 module_body) initial_state = Inr s6 \<and>
      exec (take 7 module_body) initial_state = Inr s7 \<and>
      main = Inr s8 \<and>
      length (heap s2) = 1 \<and> heap s3 = heap s2 \<and> heap s4 = heap s2 \<and> heap s5 = heap s2 \<and>
      heap s6 = heap s2 \<and> length (heap s7) = 2 \<and> take 1 (heap s7) = heap s2 \<and> heap s8 = heap s7"
    unfolding run_2 run_3 run_4 run_5 run_6 run_7 run_8
    by simp
qed

subsection \<open>The private attribute\<close>

text \<open>
  C9. The name given to \<^verbatim>\<open>Animal(name)\<close> or \<^verbatim>\<open>Cat(name)\<close> is stored in the instance
  dictionary, and code outside the class reaches it: the module-level read
  \<^verbatim>\<open>obj._Animal__name\<close> returns it, for every name and state, and so on the script's
  own \<open>my_cat\<close>. The restriction is a naming convention, not enforced.
\<close>

theorem private_name_is_reachable_from_outside:
  "(\<exists>s. call (PClass Animal) [name] st = Inr (PRef (length (heap st)), s) \<and>
        getattr (PRef (length (heap st))) ''_Animal__name'' s = Inr name) \<and>
   (\<exists>s. call (PClass Cat) [name] st = Inr (PRef (length (heap st)), s) \<and>
        getattr (PRef (length (heap st))) ''_Animal__name'' s = Inr name) \<and>
   (\<exists>s c. main = Inr s \<and> load_global ''my_cat'' s = Inr c \<and>
          getattr c ''_Animal__name'' s = Inr (PStr ''Whiskers''))"
proof (intro conjI)
  show "\<exists>s. call (PClass Animal) [name] st = Inr (PRef (length (heap st)), s) \<and>
        getattr (PRef (length (heap st))) ''_Animal__name'' s = Inr name"
    by (simp add: call_def instantiate_Animal getattr_def)
  show "\<exists>s. call (PClass Cat) [name] st = Inr (PRef (length (heap st)), s) \<and>
        getattr (PRef (length (heap st))) ''_Animal__name'' s = Inr name"
    by (simp add: call_def instantiate_Cat getattr_def)
  show "\<exists>s c. main = Inr s \<and> load_global ''my_cat'' s = Inr c \<and>
          getattr c ''_Animal__name'' s = Inr (PStr ''Whiskers'')"
    unfolding run_8 by (simp add: load_global_def getattr_def)
qed

text \<open>
  C10. In the body of \<open>Animal\<close> the identifier \<^verbatim>\<open>__name\<close> is compiled as
  \<^verbatim>\<open>_Animal__name\<close>, so that is the one key of the dictionary of every instance made
  by \<^verbatim>\<open>Animal(name)\<close> or \<^verbatim>\<open>Cat(name)\<close>: read from module level, \<^verbatim>\<open>.name\<close> and
  \<^verbatim>\<open>.__name\<close> raise \<^verbatim>\<open>AttributeError\<close> and \<^verbatim>\<open>._Animal__name\<close> returns the
  constructor's argument.
\<close>

theorem name_is_stored_under_the_mangled_attribute_only:
  "mangle (class_name Animal) ''__name'' = ''_Animal__name'' \<and>
   (\<exists>s. call (PClass Animal) [name] st = Inr (PRef (length (heap st)), s) \<and>
        dom (ob_dict (heap s ! length (heap st))) = {''_Animal__name''} \<and>
        getattr (PRef (length (heap st))) ''name'' s = Inl (AttributeError Animal ''name'') \<and>
        getattr (PRef (length (heap st))) ''__name'' s = Inl (AttributeError Animal ''__name'') \<and>
        getattr (PRef (length (heap st))) ''_Animal__name'' s = Inr name) \<and>
   (\<exists>s. call (PClass Cat) [name] st = Inr (PRef (length (heap st)), s) \<and>
        dom (ob_dict (heap s ! length (heap st))) = {''_Animal__name''} \<and>
        getattr (PRef (length (heap st))) ''name'' s = Inl (AttributeError Cat ''name'') \<and>
        getattr (PRef (length (heap st))) ''__name'' s = Inl (AttributeError Cat ''__name'') \<and>
        getattr (PRef (length (heap st))) ''_Animal__name'' s = Inr name)"
proof (intro conjI)
  show "mangle (class_name Animal) ''__name'' = ''_Animal__name''"
    by (rule mangle_Animal_name)
next
  let ?ob = "\<lparr>ob_type = Animal, ob_dict = [''_Animal__name'' \<mapsto> name]\<rparr>"
  let ?s = "st\<lparr>heap := heap st @ [?ob]\<rparr>"
  have h: "heap ?s = heap st @ [?ob]"
    by simp
  have "getattr (PRef (length (heap st))) ''name'' ?s = Inl (AttributeError Animal ''name'')"
    and "getattr (PRef (length (heap st))) ''__name'' ?s = Inl (AttributeError Animal ''__name'')"
    and "getattr (PRef (length (heap st))) ''_Animal__name'' ?s = Inr name"
    by (simp_all add: getattr_last [OF h] is_dunder_def)
  then show "\<exists>s. call (PClass Animal) [name] st = Inr (PRef (length (heap st)), s) \<and>
        dom (ob_dict (heap s ! length (heap st))) = {''_Animal__name''} \<and>
        getattr (PRef (length (heap st))) ''name'' s = Inl (AttributeError Animal ''name'') \<and>
        getattr (PRef (length (heap st))) ''__name'' s = Inl (AttributeError Animal ''__name'') \<and>
        getattr (PRef (length (heap st))) ''_Animal__name'' s = Inr name"
    by (intro exI [of _ ?s]) (simp add: call_def instantiate_Animal)
next
  let ?ob = "\<lparr>ob_type = Cat, ob_dict = [''_Animal__name'' \<mapsto> name]\<rparr>"
  let ?s = "st\<lparr>heap := heap st @ [?ob]\<rparr>"
  have h: "heap ?s = heap st @ [?ob]"
    by simp
  have "getattr (PRef (length (heap st))) ''name'' ?s = Inl (AttributeError Cat ''name'')"
    and "getattr (PRef (length (heap st))) ''__name'' ?s = Inl (AttributeError Cat ''__name'')"
    and "getattr (PRef (length (heap st))) ''_Animal__name'' ?s = Inr name"
    by (simp_all add: getattr_last [OF h] is_dunder_def)
  then show "\<exists>s. call (PClass Cat) [name] st = Inr (PRef (length (heap st)), s) \<and>
        dom (ob_dict (heap s ! length (heap st))) = {''_Animal__name''} \<and>
        getattr (PRef (length (heap st))) ''name'' s = Inl (AttributeError Cat ''name'') \<and>
        getattr (PRef (length (heap st))) ''__name'' s = Inl (AttributeError Cat ''__name'') \<and>
        getattr (PRef (length (heap st))) ''_Animal__name'' s = Inr name"
    by (intro exI [of _ ?s]) (simp add: call_def instantiate_Cat)
qed

end
